theory Spec2Isabelle
  imports Complex_Main
begin

section \<open>The store\<close>

text \<open>
  Both \<^verbatim>\<open>backend_logic.py\<close> and \<^verbatim>\<open>claude_logic.py\<close> talk to one SQLite file through
  parameterised SQL statements. The state of the program is the content of the tables;
  every Python function below takes the database and returns it, next to its Python
  return value or, where the function lets an exception through to its caller, next to
  that exception.

  Python floats (\<^verbatim>\<open>total_price\<close>, \<^verbatim>\<open>stock\<close>, ...) are only ever compared with \<open>0\<close> and
  stored, never computed with, so they are modelled by \<open>real\<close>; NaN and the infinities
  are outside the model. Python integers are \<open>int\<close>. The clock
  (\<^verbatim>\<open>datetime.datetime.now().strftime(...)\<close>) is an input: the formatted time is passed
  as a string.
\<close>

subsection \<open>Tables\<close>

text \<open>
  Modelled from the spec: the table declarations (the \<^verbatim>\<open>CREATE TABLE\<close> statements of
  \<^verbatim>\<open>food_db.db\<close>) are not in the sources. Each table has the columns that the
  statements of the source name, with the types of section 3 of the specification.
\<close>

record customer_row =
  cus_id :: int
  cus_name :: string
  cus_phone :: string

record employee_row =
  emp_id :: int
  emp_name :: string

record shipper_row =
  shipper_id :: int
  shipper_info :: string

record ingredient_row =
  ingre_id :: int
  ingre_name :: string
  stock :: real
  unit :: string
  expiry :: string
  suppliers :: string

record order_row =
  order_id :: int
  dish_req :: string
  total_price :: real
  order_time :: string
  status :: string
  order_cus_id :: int

record bill_row =
  bill_id :: int
  bill_order_id :: int
  bill_emp_id :: int
  bill_shipper_id :: int
  total_amount :: real
  bill_time :: string

record delivery_row =
  delivery_id :: int
  delivery_order_id :: int
  delivery_shipper_id :: int
  delivery_time :: string
  delivery_addr :: string
  distance :: real
  fee :: real

record database =
  Customers :: "customer_row list"
  Employees :: "employee_row list"
  Shippers :: "shipper_row list"
  Ingredients :: "ingredient_row list"
  Orders :: "order_row list"
  Bills :: "bill_row list"
  Deliveries :: "delivery_row list"

subsection \<open>Statements\<close>

text \<open>
  One constructor for each SQL text of the source that the properties below are about;
  the arguments are the statement's parameters, in the order of its \<^verbatim>\<open>?\<close> marks.
\<close>

datatype statement =
    InsertCustomer string string
      \<comment> \<open>\<^verbatim>\<open>INSERT INTO Customers (cus_name, cus_phone) VALUES (?, ?)\<close>\<close>
  | SelectCustomerByPhone string
      \<comment> \<open>\<^verbatim>\<open>SELECT cus_id, cus_name, cus_phone FROM Customers WHERE cus_phone = ?\<close>\<close>
  | InsertIngredient string real string string string
      \<comment> \<open>\<^verbatim>\<open>INSERT INTO Ingredients (ingre_name, stock, unit, expiry, suppliers) VALUES (?, ?, ?, ?, ?)\<close>\<close>
  | UpdateIngredientStock real int
      \<comment> \<open>\<^verbatim>\<open>UPDATE Ingredients SET stock = ? WHERE ingre_id = ?\<close>\<close>
  | UpdateIngredient string real string string string int
      \<comment> \<open>\<^verbatim>\<open>UPDATE Ingredients SET ingre_name = ?, stock = ?, unit = ?, expiry = ?, suppliers = ? WHERE ingre_id = ?\<close>\<close>
  | InsertOrder string real string string int
      \<comment> \<open>\<^verbatim>\<open>INSERT INTO Orders (dish_req, total_price, order_time, status, cus_id) VALUES (?, ?, ?, ?, ?)\<close>\<close>
  | InsertBill int int int real string
      \<comment> \<open>\<^verbatim>\<open>INSERT INTO Bills (order_id, emp_id, shipper_id, total_amount, bill_time) VALUES (?, ?, ?, ?, ?)\<close>\<close>
  | InsertDelivery int int string string real real
      \<comment> \<open>\<^verbatim>\<open>INSERT INTO Deliveries (order_id, shipper_id, delivery_time, delivery_addr, distance, fee) VALUES (?, ?, ?, ?, ?, ?)\<close>\<close>
  | UpdateOrderStatus string int
      \<comment> \<open>\<^verbatim>\<open>UPDATE Orders SET status = ? WHERE order_id = ?\<close>\<close>

datatype sql_value = SqlNull | SqlInt int | SqlReal real | SqlText string

type_synonym sql_row = "sql_value list"


subsection \<open>Exceptions\<close>

text \<open>
  The \<^verbatim>\<open>sqlite3.Error\<close> exceptions that the source catches: \<^verbatim>\<open>IntegrityError\<close> is the
  subclass raised for a violated constraint, \<^verbatim>\<open>OperationalError\<close> the one raised for a
  file that cannot be opened, a missing table, a locked database. \<^verbatim>\<open>OverflowError\<close> is
  not a \<^verbatim>\<open>sqlite3.Error\<close>: the driver raises it when it is given a Python integer that
  does not fit the 64 bits of an SQLite integer.
\<close>

datatype sqlite_error = IntegrityError | OperationalError

datatype py_exception = Sqlite3Error sqlite_error | OverflowError

text \<open>What a call gives its caller: a value, or an exception that it did not catch.\<close>

datatype 'a outcome = Return 'a | Raise py_exception

subsection \<open>The store as the code meets it\<close>

text \<open>
  What makes a connection or a statement fail is decided by the store, not by the
  Python code: the constraints of the missing table declarations, a missing table, a
  locked or unreadable file. It is a parameter of every operation:
  \<^item> \<open>connects\<close>: \<^verbatim>\<open>sqlite3.connect\<close> returns a connection (otherwise it raises
    \<^verbatim>\<open>OperationalError\<close>);
  \<^item> \<open>execute_error st db q = Some e\<close>: \<^verbatim>\<open>cur.execute\<close> of \<open>q\<close> on content \<open>db\<close> raises
    \<open>e\<close>;
  \<^item> \<open>commit_error st db q = Some e\<close>: \<^verbatim>\<open>conn.commit()\<close> after \<open>q\<close> raises \<open>e\<close>;
  \<^item> \<open>random_rowid\<close>: the unused rowid that SQLite draws at random for a new row
    when the largest rowid of the table is already the largest 64-bit integer.
  \<^verbatim>\<open>conn.rollback()\<close> and \<^verbatim>\<open>conn.close()\<close> are taken not to raise.
\<close>

record store =
  connects :: bool
  execute_error :: "database \<Rightarrow> statement \<Rightarrow> sqlite_error option"
  commit_error :: "database \<Rightarrow> statement \<Rightarrow> sqlite_error option"
  random_rowid :: "int list \<Rightarrow> int"

text \<open>The integer parameters of a statement, and the range the driver can bind.\<close>

fun int_params :: "statement \<Rightarrow> int list" where
  "int_params (InsertCustomer name phone) = []"
| "int_params (SelectCustomerByPhone phone) = []"
| "int_params (InsertIngredient name stk u ex supp) = []"
| "int_params (UpdateIngredientStock new_stock iid) = [iid]"
| "int_params (UpdateIngredient name stk u ex supp iid) = [iid]"
| "int_params (InsertOrder req price t s cid) = [cid]"
| "int_params (InsertBill oid eid sid amount t) = [oid, eid, sid]"
| "int_params (InsertDelivery oid sid t addr km f) = [oid, sid]"
| "int_params (UpdateOrderStatus s oid) = [oid]"

definition sqlite_int :: "int \<Rightarrow> bool" where
  "sqlite_int i = (- 9223372036854775808 \<le> i \<and> i \<le> 9223372036854775807)"

definition overflows :: "statement \<Rightarrow> bool" where
  "overflows q = (\<not> list_all sqlite_int (int_params q))"

text \<open>
  The rowid given to an inserted row, which \<^verbatim>\<open>cur.lastrowid\<close> reads: \<open>1\<close> in an empty
  table, otherwise one more than the largest rowid in the table; when that one is
  the largest 64-bit integer already, the rowid that the store draws.
\<close>

definition max_rowid :: int where
  "max_rowid = 9223372036854775807"

fun next_rowid :: "(int list \<Rightarrow> int) \<Rightarrow> int list \<Rightarrow> int" where
  "next_rowid pick [] = 1"
| "next_rowid pick (i # ids) =
     (if fold max ids i < max_rowid then fold max ids i + 1 else pick (i # ids))"

definition customer_columns :: "customer_row \<Rightarrow> sql_row" where
  "customer_columns c = [SqlInt (cus_id c), SqlText (cus_name c), SqlText (cus_phone c)]"

text \<open>
  The effect of a statement that the store accepts: the content after it, the rows its
  cursor holds, and the cursor's \<^verbatim>\<open>lastrowid\<close> (read by the source after an
  \<^verbatim>\<open>INSERT\<close> only; \<open>0\<close> otherwise).
\<close>

fun sql_effect ::
  "(int list \<Rightarrow> int) \<Rightarrow> database \<Rightarrow> statement \<Rightarrow> database \<times> sql_row list \<times> int" where
  "sql_effect pick db (InsertCustomer name phone) =
     (let i = next_rowid pick (map cus_id (Customers db)) in
      (db\<lparr>Customers := Customers db @
           [\<lparr>cus_id = i, cus_name = name, cus_phone = phone\<rparr>]\<rparr>, [], i))"
| "sql_effect pick db (SelectCustomerByPhone phone) =
     (db, map customer_columns (filter (\<lambda>c. cus_phone c = phone) (Customers db)), 0)"
| "sql_effect pick db (InsertIngredient name stk u ex supp) =
     (let i = next_rowid pick (map ingre_id (Ingredients db)) in
      (db\<lparr>Ingredients := Ingredients db @
           [\<lparr>ingre_id = i, ingre_name = name, stock = stk, unit = u, expiry = ex,
             suppliers = supp\<rparr>]\<rparr>, [], i))"
| "sql_effect pick db (UpdateIngredientStock new_stock iid) =
     (db\<lparr>Ingredients :=
           map (\<lambda>r. if ingre_id r = iid then r\<lparr>stock := new_stock\<rparr> else r) (Ingredients db)\<rparr>,
      [], 0)"
| "sql_effect pick db (UpdateIngredient name stk u ex supp iid) =
     (db\<lparr>Ingredients :=
           map (\<lambda>r. if ingre_id r = iid
                     then r\<lparr>ingre_name := name, stock := stk, unit := u, expiry := ex,
                            suppliers := supp\<rparr>
                     else r) (Ingredients db)\<rparr>,
      [], 0)"
| "sql_effect pick db (InsertOrder req price t s cid) =
     (let i = next_rowid pick (map order_id (Orders db)) in
      (db\<lparr>Orders := Orders db @
           [\<lparr>order_id = i, dish_req = req, total_price = price, order_time = t, status = s,
             order_cus_id = cid\<rparr>]\<rparr>, [], i))"
| "sql_effect pick db (InsertBill oid eid sid amount t) =
     (let i = next_rowid pick (map bill_id (Bills db)) in
      (db\<lparr>Bills := Bills db @
           [\<lparr>bill_id = i, bill_order_id = oid, bill_emp_id = eid, bill_shipper_id = sid,
             total_amount = amount, bill_time = t\<rparr>]\<rparr>, [], i))"
| "sql_effect pick db (InsertDelivery oid sid t addr km f) =
     (let i = next_rowid pick (map delivery_id (Deliveries db)) in
      (db\<lparr>Deliveries := Deliveries db @
           [\<lparr>delivery_id = i, delivery_order_id = oid, delivery_shipper_id = sid,
             delivery_time = t, delivery_addr = addr, distance = km, fee = f\<rparr>]\<rparr>, [], i))"
| "sql_effect pick db (UpdateOrderStatus s oid) =
     (db\<lparr>Orders := map (\<lambda>r. if order_id r = oid then r\<lparr>status := s\<rparr> else r) (Orders db)\<rparr>,
      [], 0)"

text \<open>
  \<^verbatim>\<open>cur.execute(query, params)\<close> on an open connection: the pending content, the rows
  and \<^verbatim>\<open>lastrowid\<close>, or the exception. Nothing is committed yet.
\<close>

definition cur_execute ::
  "store \<Rightarrow> database \<Rightarrow> statement \<Rightarrow> py_exception + database \<times> sql_row list \<times> int" where
  "cur_execute st db q =
     (if overflows q then Inl OverflowError
      else case execute_error st db q of
             Some e \<Rightarrow> Inl (Sqlite3Error e)
           | None \<Rightarrow> Inr (sql_effect (random_rowid st) db q))"

text \<open>
  Two conditions on the store, used to state what the operations do. A statement is
  \<open>readable\<close> when a connection opens and \<^verbatim>\<open>cur.execute\<close> raises nothing; it is
  \<open>accepted\<close> when moreover \<^verbatim>\<open>conn.commit()\<close> raises nothing.
\<close>

definition readable :: "store \<Rightarrow> database \<Rightarrow> statement \<Rightarrow> bool" where
  "readable st db q = (connects st \<and> \<not> overflows q \<and> execute_error st db q = None)"

definition accepted :: "store \<Rightarrow> database \<Rightarrow> statement \<Rightarrow> bool" where
  "accepted st db q = (readable st db q \<and> commit_error st db q = None)"

section \<open>The query executor\<close>

text \<open>
  What \<^verbatim>\<open>execute_query\<close> hands back to its caller: \<^verbatim>\<open>None\<close>, \<^verbatim>\<open>True\<close>, one
  \<^verbatim>\<open>sqlite3.Row\<close> or a list of rows. What it prints or logs is not part of the value.
\<close>

datatype py_result = PyNone | PyTrue | PyRow sql_row | PyRows "sql_row list"

text \<open>
  Python's truth value of such a result, as \<^verbatim>\<open>bool(result)\<close> and \<^verbatim>\<open>if result:\<close> take it:
  a row and a list are true when they are not empty.
\<close>

fun py_bool :: "py_result \<Rightarrow> bool" where
  "py_bool PyNone = False"
| "py_bool PyTrue = True"
| "py_bool (PyRow r) = (r \<noteq> [])"
| "py_bool (PyRows rs) = (rs \<noteq> [])"

fun fetchone :: "sql_row list \<Rightarrow> py_result" where
  "fetchone [] = PyNone"
| "fetchone (r # rs) = PyRow r"

text \<open>
  \<^verbatim>\<open>backend_logic.execute_query(query, params, fetch_one, commit)\<close>. \<^verbatim>\<open>connect()\<close> and
  \<^verbatim>\<open>conn.cursor()\<close> are called before the \<^verbatim>\<open>try\<close>, so a store that does not open raises
  to the caller. The
  handler catches \<^verbatim>\<open>sqlite3.Error\<close> only, from \<^verbatim>\<open>cur.execute\<close> and from \<^verbatim>\<open>conn.commit()\<close>,
  and makes the result \<^verbatim>\<open>None\<close>; any other exception passes through the \<^verbatim>\<open>finally\<close>.
  Every call has a connection of its own and closes it at the end; what was not
  committed is lost with the connection, so the content changes only when the commit
  has succeeded.
\<close>

definition backend_execute_query ::
  "store \<Rightarrow> database \<Rightarrow> statement \<Rightarrow> bool \<Rightarrow> bool \<Rightarrow> py_result outcome \<times> database" where
  "backend_execute_query st db q fetch_one commit =
     (if \<not> connects st then (Raise (Sqlite3Error OperationalError), db)
      else case cur_execute st db q of
             Inl OverflowError \<Rightarrow> (Raise OverflowError, db)
           | Inl (Sqlite3Error e) \<Rightarrow> (Return PyNone, db)
           | Inr (db', rows, last_id) \<Rightarrow>
               if commit then
                 (case commit_error st db q of
                    Some e \<Rightarrow> (Return PyNone, db)
                  | None \<Rightarrow> (Return PyTrue, db'))
               else if fetch_one then (Return (fetchone rows), db)
               else (Return (PyRows rows), db))"

text \<open>
  \<^verbatim>\<open>claude_logic.DatabaseManager.execute_query\<close>: the same three modes, but the
  connection is opened inside the \<^verbatim>\<open>try\<close> and the handlers (\<^verbatim>\<open>IntegrityError\<close>,
  \<^verbatim>\<open>sqlite3.Error\<close>, \<^verbatim>\<open>Exception\<close>) catch everything; each of them returns \<^verbatim>\<open>None\<close>.
\<close>

definition execute_query ::
  "store \<Rightarrow> database \<Rightarrow> statement \<Rightarrow> bool \<Rightarrow> bool \<Rightarrow> py_result \<times> database" where
  "execute_query st db q fetch_one commit =
     (if \<not> connects st then (PyNone, db)
      else case cur_execute st db q of
             Inl (Sqlite3Error IntegrityError) \<Rightarrow> (PyNone, db)
           | Inl (Sqlite3Error OperationalError) \<Rightarrow> (PyNone, db)
           | Inl OverflowError \<Rightarrow> (PyNone, db)
           | Inr (db', rows, last_id) \<Rightarrow>
               if commit then
                 (case commit_error st db q of
                    Some e \<Rightarrow> (PyNone, db)
                  | None \<Rightarrow> (PyTrue, db'))
               else if fetch_one then (fetchone rows, db)
               else (PyRows rows, db))"

text \<open>
  \<^verbatim>\<open>claude_logic.DatabaseManager.execute_with_lastrowid\<close>: \<^verbatim>\<open>lastrowid\<close> is returned
  after the commit; the one handler catches \<^verbatim>\<open>sqlite3.Error\<close> and returns \<^verbatim>\<open>None\<close>, any
  other exception reaches the caller.
\<close>

definition execute_with_lastrowid ::
  "store \<Rightarrow> database \<Rightarrow> statement \<Rightarrow> int option outcome \<times> database" where
  "execute_with_lastrowid st db q =
     (if \<not> connects st then (Return None, db)
      else case cur_execute st db q of
             Inl (Sqlite3Error e) \<Rightarrow> (Return None, db)
           | Inl OverflowError \<Rightarrow> (Raise OverflowError, db)
           | Inr (db', rows, last_id) \<Rightarrow>
               (case commit_error st db q of
                  Some e \<Rightarrow> (Return None, db)
                | None \<Rightarrow> (Return (Some last_id), db')))"

section \<open>Ingredients\<close>

text \<open>
  \<^verbatim>\<open>backend_logic.IngredientManager.deduct_stock_for_order(dish_req_string)\<close>: prints a
  message and returns \<^verbatim>\<open>True\<close>; it runs no statement.
\<close>

definition deduct_stock_for_order :: "database \<Rightarrow> string \<Rightarrow> bool \<times> database" where
  "deduct_stock_for_order db dish_req_string = (True, db)"

text \<open>\<^verbatim>\<open>backend_logic.IngredientManager.add\<close> and \<^verbatim>\<open>update_stock\<close>: the statement, unchecked.\<close>

definition backend_IngredientManager_add ::
  "store \<Rightarrow> database \<Rightarrow> string \<Rightarrow> real \<Rightarrow> string \<Rightarrow> string \<Rightarrow> string
     \<Rightarrow> py_result outcome \<times> database" where
  "backend_IngredientManager_add st db name stk u ex supp =
     backend_execute_query st db (InsertIngredient name stk u ex supp) False True"

definition backend_update_stock ::
  "store \<Rightarrow> database \<Rightarrow> int \<Rightarrow> real \<Rightarrow> py_result outcome \<times> database" where
  "backend_update_stock st db iid new_stock =
     backend_execute_query st db (UpdateIngredientStock new_stock iid) False True"

text \<open>
  \<^verbatim>\<open>claude_logic.IngredientManager.add\<close>, \<^verbatim>\<open>update_stock\<close> and \<^verbatim>\<open>update\<close>. The first two
  return \<^verbatim>\<open>False\<close> before any statement when the stock is negative (\<^verbatim>\<open>add\<close> also when
  the name is empty); \<^verbatim>\<open>update\<close> has no such test.
\<close>

definition IngredientManager_add ::
  "store \<Rightarrow> database \<Rightarrow> string \<Rightarrow> real \<Rightarrow> string \<Rightarrow> string \<Rightarrow> string \<Rightarrow> bool \<times> database" where
  "IngredientManager_add st db name stk u ex supp =
     (if name = [] \<or> stk < 0 then (False, db)
      else (let (result, db') = execute_query st db (InsertIngredient name stk u ex supp) False True
            in (py_bool result, db')))"

definition update_stock :: "store \<Rightarrow> database \<Rightarrow> int \<Rightarrow> real \<Rightarrow> bool \<times> database" where
  "update_stock st db iid new_stock =
     (if new_stock < 0 then (False, db)
      else (let (result, db') = execute_query st db (UpdateIngredientStock new_stock iid) False True
            in (py_bool result, db')))"

definition IngredientManager_update ::
  "store \<Rightarrow> database \<Rightarrow> int \<Rightarrow> string \<Rightarrow> real \<Rightarrow> string \<Rightarrow> string \<Rightarrow> string \<Rightarrow> bool \<times> database" where
  "IngredientManager_update st db iid name stk u ex supp =
     (let (result, db') = execute_query st db (UpdateIngredient name stk u ex supp iid) False True
      in (py_bool result, db'))"

text \<open>The invariant of the Ingredient table: no stock is negative.\<close>

definition stock_nonneg :: "database \<Rightarrow> bool" where
  "stock_nonneg db = list_all (\<lambda>r. 0 \<le> stock r) (Ingredients db)"

section \<open>Customers\<close>

text \<open>\<^verbatim>\<open>claude_logic.CustomerManager.get_by_phone\<close> and \<^verbatim>\<open>add\<close>.\<close>

definition get_by_phone :: "store \<Rightarrow> database \<Rightarrow> string \<Rightarrow> py_result \<times> database" where
  "get_by_phone st db phone = execute_query st db (SelectCustomerByPhone phone) True False"

definition CustomerManager_add ::
  "store \<Rightarrow> database \<Rightarrow> string \<Rightarrow> string \<Rightarrow> bool \<times> database" where
  "CustomerManager_add st db name phone =
     (if name = [] \<or> phone = [] then (False, db)
      else (let (existing, db1) = get_by_phone st db phone in
            if py_bool existing then (False, db1)
            else (let (result, db2) = execute_query st db1 (InsertCustomer name phone) False True
                  in (py_bool result, db2))))"

section \<open>Orders, bills and deliveries\<close>

text \<open>
  \<^verbatim>\<open>claude_logic.OrderStatus\<close>, and the lookup \<^verbatim>\<open>OrderStatus(status)\<close> of a member by its
  value, which raises \<^verbatim>\<open>ValueError\<close> (here \<open>None\<close>) for any other string.
\<close>

datatype OrderStatus = PENDING | PREPARING | READY | DELIVERED | CANCELLED

fun OrderStatus_value :: "OrderStatus \<Rightarrow> string" where
  "OrderStatus_value PENDING = ''Pending''"
| "OrderStatus_value PREPARING = ''Preparing''"
| "OrderStatus_value READY = ''Ready''"
| "OrderStatus_value DELIVERED = ''Delivered''"
| "OrderStatus_value CANCELLED = ''Cancelled''"

definition OrderStatus_lookup :: "string \<Rightarrow> OrderStatus option" where
  "OrderStatus_lookup s =
     find (\<lambda>m. OrderStatus_value m = s) [PENDING, PREPARING, READY, DELIVERED, CANCELLED]"

text \<open>
  \<^verbatim>\<open>backend_logic.OrderManager.create_order\<close> handles its connection by hand, with
  \<^verbatim>\<open>connect()\<close> before the \<^verbatim>\<open>try\<close>. Inside it runs the \<^verbatim>\<open>INSERT\<close>, sets
  \<^verbatim>\<open>order_id = cur.lastrowid\<close> and only then commits; the handler of \<^verbatim>\<open>sqlite3.Error\<close>
  rolls back and leaves \<^verbatim>\<open>order_id\<close> as it is. So when the \<^verbatim>\<open>INSERT\<close> raises the result
  is \<^verbatim>\<open>None\<close>, and when the commit raises the result is the id of a row that was
  rolled back.
\<close>

definition backend_create_order ::
  "store \<Rightarrow> database \<Rightarrow> string \<Rightarrow> real \<Rightarrow> int \<Rightarrow> string \<Rightarrow> int option outcome \<times> database" where
  "backend_create_order st db dish_req_string price cid now =
     (if \<not> connects st then (Raise (Sqlite3Error OperationalError), db)
      else case cur_execute st db (InsertOrder dish_req_string price now ''Pending'' cid) of
             Inl OverflowError \<Rightarrow> (Raise OverflowError, db)
           | Inl (Sqlite3Error e) \<Rightarrow> (Return None, db)
           | Inr (db', rows, last_id) \<Rightarrow>
               (case commit_error st db (InsertOrder dish_req_string price now ''Pending'' cid) of
                  Some e \<Rightarrow> (Return (Some last_id), db)
                | None \<Rightarrow> (Return (Some last_id), db')))"

text \<open>
  The other three operations of \<^verbatim>\<open>backend_logic.OrderManager\<close> go through
  \<^verbatim>\<open>execute_query\<close> with \<^verbatim>\<open>commit=True\<close>. None of them looks at its arguments.
\<close>

definition backend_create_bill ::
  "store \<Rightarrow> database \<Rightarrow> int \<Rightarrow> int \<Rightarrow> int \<Rightarrow> real \<Rightarrow> string \<Rightarrow> py_result outcome \<times> database" where
  "backend_create_bill st db oid eid sid amount now =
     backend_execute_query st db (InsertBill oid eid sid amount now) False True"

definition backend_add_delivery ::
  "store \<Rightarrow> database \<Rightarrow> int \<Rightarrow> int \<Rightarrow> string \<Rightarrow> real \<Rightarrow> real \<Rightarrow> string
     \<Rightarrow> py_result outcome \<times> database" where
  "backend_add_delivery st db oid sid addr km f now =
     backend_execute_query st db (InsertDelivery oid sid now addr km f) False True"

definition backend_update_status ::
  "store \<Rightarrow> database \<Rightarrow> int \<Rightarrow> string \<Rightarrow> py_result outcome \<times> database" where
  "backend_update_status st db oid s =
     backend_execute_query st db (UpdateOrderStatus s oid) False True"

text \<open>\<^verbatim>\<open>claude_logic.OrderManager\<close>.\<close>

definition create_order ::
  "store \<Rightarrow> database \<Rightarrow> string \<Rightarrow> real \<Rightarrow> int \<Rightarrow> string \<Rightarrow> int option outcome \<times> database" where
  "create_order st db dish_req_string price cid now =
     (if dish_req_string = [] \<or> price \<le> 0 then (Return None, db)
      else execute_with_lastrowid st db
             (InsertOrder dish_req_string price now (OrderStatus_value PENDING) cid))"

definition create_bill ::
  "store \<Rightarrow> database \<Rightarrow> int \<Rightarrow> int \<Rightarrow> int \<Rightarrow> real \<Rightarrow> string \<Rightarrow> bool \<times> database" where
  "create_bill st db oid eid sid amount now =
     (let (result, db') = execute_query st db (InsertBill oid eid sid amount now) False True
      in (py_bool result, db'))"

definition add_delivery ::
  "store \<Rightarrow> database \<Rightarrow> int \<Rightarrow> int \<Rightarrow> string \<Rightarrow> real \<Rightarrow> real \<Rightarrow> string \<Rightarrow> bool \<times> database" where
  "add_delivery st db oid sid addr km f now =
     (let (result, db') = execute_query st db (InsertDelivery oid sid now addr km f) False True
      in (py_bool result, db'))"

definition update_status :: "store \<Rightarrow> database \<Rightarrow> int \<Rightarrow> string \<Rightarrow> bool \<times> database" where
  "update_status st db oid s =
     (case OrderStatus_lookup s of
        None \<Rightarrow> (False, db)
      | Some member \<Rightarrow>
          (let (result, db') = execute_query st db (UpdateOrderStatus s oid) False True
           in (py_bool result, db')))"

text \<open>
  A caller that places one order after the other with \<^verbatim>\<open>claude_logic\<close>'s
  \<^verbatim>\<open>create_order\<close>: the list holds, for each call, the arguments
  \<^verbatim>\<open>(dish_req_string, total_price, cus_id)\<close> and the time of the call. The results are
  collected in the order of the calls; an exception ends the sequence.
\<close>

fun create_order_calls ::
  "store \<Rightarrow> database \<Rightarrow> (string \<times> real \<times> int \<times> string) list
     \<Rightarrow> int option outcome list \<times> database" where
  "create_order_calls st db [] = ([], db)"
| "create_order_calls st db ((req, price, cid, now) # calls) =
     (case create_order st db req price cid now of
        (Raise e, db1) \<Rightarrow> ([Raise e], db1)
      | (Return r, db1) \<Rightarrow>
          (let (rs, db2) = create_order_calls st db1 calls in (Return r # rs, db2)))"

text \<open>The id that a call returned, if it returned one.\<close>

fun returned_id :: "int option outcome \<Rightarrow> int option" where
  "returned_id (Return r) = r"
| "returned_id (Raise e) = None"

section \<open>The specification's transition table\<close>

text \<open>
  Section 4.4 of the specification, in its own words: Pending to Preparing or
  Cancelled, Preparing to Ready or Cancelled, Ready to Delivered or Cancelled. It is not
  taken from the source, which has no such table; it is here to be compared with
  \<open>update_status\<close>.
\<close>

definition spec_legal_transition :: "string \<Rightarrow> string \<Rightarrow> bool" where
  "spec_legal_transition s t =
     ((s = ''Pending'' \<and> (t = ''Preparing'' \<or> t = ''Cancelled'')) \<or>
      (s = ''Preparing'' \<and> (t = ''Ready'' \<or> t = ''Cancelled'')) \<or>
      (s = ''Ready'' \<and> (t = ''Delivered'' \<or> t = ''Cancelled'')))"

section \<open>Stores and contents used as examples\<close>

text \<open>A store that opens and accepts every statement.\<close>

definition no_constraints :: store where
  "no_constraints = \<lparr>connects = True, execute_error = (\<lambda>db q. None),
                      commit_error = (\<lambda>db q. None), random_rowid = (\<lambda>ids. 1)\<rparr>"



text \<open>A store that runs every statement and then fails to commit it, as when it is locked.\<close>

definition commit_fails :: store where
  "commit_fails = \<lparr>connects = True, execute_error = (\<lambda>db q. None),
                    commit_error = (\<lambda>db q. Some OperationalError), random_rowid = (\<lambda>ids. 1)\<rparr>"

text \<open>A store on which the lookup of a customer by phone fails and every other statement runs.\<close>

fun lookup_error :: "database \<Rightarrow> statement \<Rightarrow> sqlite_error option" where
  "lookup_error db (SelectCustomerByPhone phone) = Some OperationalError"
| "lookup_error db q = None"

definition lookup_fails :: store where
  "lookup_fails = \<lparr>connects = True, execute_error = lookup_error,
                    commit_error = (\<lambda>db q. None), random_rowid = (\<lambda>ids. 1)\<rparr>"

text \<open>
  Modelled from the spec: a store that enforces the references of section 3 (an Order
  belongs to a Customer; a Bill references an Order, an Employee and a Shipper; a
  Delivery references an Order and a Shipper) and nothing else.
\<close>

fun reference_error :: "database \<Rightarrow> statement \<Rightarrow> sqlite_error option" where
  "reference_error db (InsertOrder req price t s cid) =
     (if cid \<in> set (map cus_id (Customers db)) then None else Some IntegrityError)"
| "reference_error db (InsertBill oid eid sid amount t) =
     (if oid \<in> set (map order_id (Orders db)) \<and> eid \<in> set (map emp_id (Employees db)) \<and>
         sid \<in> set (map shipper_id (Shippers db))
      then None else Some IntegrityError)"
| "reference_error db (InsertDelivery oid sid t addr km f) =
     (if oid \<in> set (map order_id (Orders db)) \<and> sid \<in> set (map shipper_id (Shippers db))
      then None else Some IntegrityError)"
| "reference_error db q = None"

definition foreign_keys :: store where
  "foreign_keys = \<lparr>connects = True, execute_error = reference_error,
                    commit_error = (\<lambda>db q. None), random_rowid = (\<lambda>ids. 1)\<rparr>"


text \<open>One customer, one employee, one shipper, and 5 kg of flour.\<close>

definition small_db :: database where
  "small_db = \<lparr>Customers = [\<lparr>cus_id = 1, cus_name = ''An'', cus_phone = ''0901''\<rparr>],
               Employees = [\<lparr>emp_id = 1, emp_name = ''Binh''\<rparr>],
               Shippers = [\<lparr>shipper_id = 1, shipper_info = ''Chi''\<rparr>],
               Ingredients = [\<lparr>ingre_id = 1, ingre_name = ''Flour'', stock = 5, unit = ''kg'',
                               expiry = ''2026-01-01'', suppliers = ''Mill''\<rparr>],
               Orders = [], Bills = [], Deliveries = []\<rparr>"

definition small_db_with_order :: database where
  "small_db_with_order =
     small_db\<lparr>Orders := [\<lparr>order_id = 1, dish_req = ''Bread'', total_price = 4,
                           order_time = ''2025-01-01 12:00:00'', status = ''Pending'',
                           order_cus_id = 1\<rparr>]\<rparr>"

section \<open>What an operation leaves alone\<close>

text \<open>
  The Order, Bill and Delivery rows of \<open>db\<close> are all in \<open>db'\<close>, in their places and
  with every field as it was; \<open>db'\<close> may hold more rows after them.
\<close>

definition rows_kept :: "database \<Rightarrow> database \<Rightarrow> bool" where
  "rows_kept db db' =
     (take (length (Orders db)) (Orders db') = Orders db \<and>
      take (length (Bills db)) (Bills db') = Bills db \<and>
      take (length (Deliveries db)) (Deliveries db') = Deliveries db)"

text \<open>
  From \<open>db\<close> to \<open>db'\<close> the Order rows with id \<open>oid\<close> got status \<open>s\<close> and kept their
  other fields; every other Order row and every other table is the same.
\<close>

definition only_status_changed :: "int \<Rightarrow> string \<Rightarrow> database \<Rightarrow> database \<Rightarrow> bool" where
  "only_status_changed oid s db db' =
     (list_all2 (\<lambda>r r'. r' = (if order_id r = oid then r\<lparr>status := s\<rparr> else r))
        (Orders db) (Orders db') \<and>
      Bills db' = Bills db \<and> Deliveries db' = Deliveries db \<and>
      Customers db' = Customers db \<and> Employees db' = Employees db \<and>
      Shippers db' = Shippers db \<and> Ingredients db' = Ingredients db)"


section \<open>The executor, case by case\<close>

lemma readable_select [simp]:
  "readable st db (SelectCustomerByPhone phone) =
     (connects st \<and> execute_error st db (SelectCustomerByPhone phone) = None)"
  by (simp add: readable_def overflows_def)

lemma execute_query_commit:
  "execute_query st db q f True =
     (if accepted st db q then (PyTrue, fst (sql_effect (random_rowid st) db q))
      else (PyNone, db))"
  by (auto simp add: execute_query_def cur_execute_def accepted_def readable_def
      split: option.splits sqlite_error.splits prod.splits)

lemma execute_query_fetch_one:
  "execute_query st db q True False =
     (if readable st db q then (fetchone (fst (snd (sql_effect (random_rowid st) db q))), db)
      else (PyNone, db))"
  by (auto simp add: execute_query_def cur_execute_def readable_def
      split: option.splits sqlite_error.splits prod.splits)

lemma backend_execute_query_commit:
  "backend_execute_query st db q f True =
     (if \<not> connects st then (Raise (Sqlite3Error OperationalError), db)
      else if overflows q then (Raise OverflowError, db)
      else if accepted st db q then (Return PyTrue, fst (sql_effect (random_rowid st) db q))
      else (Return PyNone, db))"
  by (auto simp add: backend_execute_query_def cur_execute_def accepted_def readable_def
      split: option.splits prod.splits)


lemma execute_with_lastrowid_cases:
  "execute_with_lastrowid st db q =
     (if connects st \<and> overflows q then (Raise OverflowError, db)
      else if accepted st db q
      then (Return (Some (snd (snd (sql_effect (random_rowid st) db q)))),
            fst (sql_effect (random_rowid st) db q))
      else (Return None, db))"
  by (auto simp add: execute_with_lastrowid_def cur_execute_def accepted_def readable_def
      split: option.splits prod.splits)




section \<open>Stock\<close>

text \<open>
  C2, as the source has it. \<^verbatim>\<open>deduct_stock_for_order\<close> is a placeholder: for every
  content of the store and every dish request it returns \<^verbatim>\<open>True\<close> and leaves the store
  as it was. So no stock is ever deducted in part, but none is checked or decremented
  either, and the call never fails.
\<close>

theorem deduct_stock_for_order_no_effect:
  "deduct_stock_for_order db dish_req_string = (True, db)"
  by (simp add: deduct_stock_for_order_def)

text \<open>
  C2 as stated fails: with 5 kg of flour in the store, two calls for \<^verbatim>\<open>Bread\<close> both
  return \<^verbatim>\<open>True\<close> and the stock is 5 after each of them; nothing is decremented and no
  call reports a shortage, however often it is repeated.
\<close>

theorem deduct_stock_for_order_counterexample:
  "deduct_stock_for_order small_db ''Bread'' = (True, small_db) \<and>
   deduct_stock_for_order (snd (deduct_stock_for_order small_db ''Bread'')) ''Bread''
     = (True, small_db) \<and>
   map stock (Ingredients small_db) = [5]"
  by (simp add: deduct_stock_for_order_def small_db_def)

text \<open>
  The guarded writers of \<^verbatim>\<open>claude_logic.py\<close> and the placeholder keep all stocks
  non-negative, whatever the store does.
\<close>

lemma update_stock_preserves:
  "stock_nonneg db \<Longrightarrow> stock_nonneg (snd (update_stock st db iid new_stock))"
  by (auto simp add: update_stock_def stock_nonneg_def execute_query_commit list_all_iff)

lemma IngredientManager_add_preserves:
  "stock_nonneg db \<Longrightarrow> stock_nonneg (snd (IngredientManager_add st db name stk u ex supp))"
  by (auto simp add: IngredientManager_add_def stock_nonneg_def execute_query_commit Let_def
      list_all_iff)

lemma deduct_stock_preserves:
  "stock_nonneg db \<Longrightarrow> stock_nonneg (snd (deduct_stock_for_order db req))"
  by (simp add: deduct_stock_for_order_def)

text \<open>
  C5 against the source: \<^verbatim>\<open>backend_logic.IngredientManager.update_stock\<close> has no test
  of the new stock. On a store without a constraint on the column, from a content
  where all stocks are non-negative, \<^verbatim>\<open>update_stock(1, -5)\<close> returns \<^verbatim>\<open>True\<close> and leaves
  the flour with a stock of \<open>-5\<close>.
\<close>

theorem backend_update_stock_negative:
  "stock_nonneg small_db \<and>
   fst (backend_update_stock no_constraints small_db 1 (- 5)) = Return PyTrue \<and>
   map stock (Ingredients (snd (backend_update_stock no_constraints small_db 1 (- 5)))) = [- 5] \<and>
   \<not> stock_nonneg (snd (backend_update_stock no_constraints small_db 1 (- 5)))"
  by (simp add: backend_update_stock_def backend_execute_query_commit accepted_def readable_def
      overflows_def sqlite_int_def no_constraints_def small_db_def stock_nonneg_def)

text \<open>
  The same happens with \<^verbatim>\<open>backend_logic.IngredientManager.add\<close> and with
  \<^verbatim>\<open>claude_logic.IngredientManager.update\<close>, which write the stock unchecked too.
\<close>

lemma backend_IngredientManager_add_negative:
  "\<not> stock_nonneg (snd (backend_IngredientManager_add no_constraints small_db ''Salt'' (- 1)
        ''kg'' ''2026-01-01'' ''Sea''))"
  by (simp add: backend_IngredientManager_add_def backend_execute_query_commit accepted_def
      readable_def overflows_def no_constraints_def small_db_def stock_nonneg_def Let_def)

lemma IngredientManager_update_negative:
  "\<not> stock_nonneg (snd (IngredientManager_update no_constraints small_db 1 ''Flour'' (- 5)
        ''kg'' ''2026-01-01'' ''Mill''))"
  by (simp add: IngredientManager_update_def execute_query_commit accepted_def readable_def
      overflows_def sqlite_int_def no_constraints_def small_db_def stock_nonneg_def)


section \<open>Creating orders\<close>

lemma create_order_cases:
  "create_order st db req price cid now =
     (if req = [] \<or> price \<le> 0 then (Return None, db)
      else if connects st \<and> overflows (InsertOrder req price now ''Pending'' cid)
      then (Raise OverflowError, db)
      else if accepted st db (InsertOrder req price now ''Pending'' cid)
      then (Return (Some (next_rowid (random_rowid st) (map order_id (Orders db)))),
            db\<lparr>Orders := Orders db @
              [\<lparr>order_id = next_rowid (random_rowid st) (map order_id (Orders db)),
                dish_req = req, total_price = price, order_time = now, status = ''Pending'',
                order_cus_id = cid\<rparr>]\<rparr>)
      else (Return None, db))"
  by (simp add: create_order_def execute_with_lastrowid_cases Let_def)

lemma backend_create_order_cases:
  "backend_create_order st db req price cid now =
     (if \<not> connects st then (Raise (Sqlite3Error OperationalError), db)
      else if overflows (InsertOrder req price now ''Pending'' cid) then (Raise OverflowError, db)
      else if execute_error st db (InsertOrder req price now ''Pending'' cid) \<noteq> None
      then (Return None, db)
      else if commit_error st db (InsertOrder req price now ''Pending'' cid) \<noteq> None
      then (Return (Some (next_rowid (random_rowid st) (map order_id (Orders db)))), db)
      else (Return (Some (next_rowid (random_rowid st) (map order_id (Orders db)))),
            db\<lparr>Orders := Orders db @
              [\<lparr>order_id = next_rowid (random_rowid st) (map order_id (Orders db)),
                dish_req = req, total_price = price, order_time = now, status = ''Pending'',
                order_cus_id = cid\<rparr>]\<rparr>))"
  by (auto simp add: backend_create_order_def cur_execute_def Let_def split: option.splits)

text \<open>
  On valid arguments, when the store accepts the \<^verbatim>\<open>INSERT\<close>, the two versions of
  \<^verbatim>\<open>create_order\<close> do the same.
\<close>

lemma backend_create_order_valid:
  "req \<noteq> [] \<Longrightarrow> 0 < price \<Longrightarrow> accepted st db (InsertOrder req price now ''Pending'' cid) \<Longrightarrow>
   backend_create_order st db req price cid now = create_order st db req price cid now"
  by (simp add: backend_create_order_cases create_order_cases accepted_def readable_def)

text \<open>
  C4 against the source: \<^verbatim>\<open>backend_logic.OrderManager.create_order\<close> validates
  nothing. Called with an empty dish request and a total price of \<open>-1\<close>, it inserts an
  Order row with these values and returns its id; \<^verbatim>\<open>claude_logic\<close>'s version returns
  \<^verbatim>\<open>None\<close> there and inserts nothing (\<open>create_order_cases\<close>).
\<close>

theorem backend_create_order_unvalidated:
  "backend_create_order no_constraints small_db [] (- 1) 1 ''2025-01-01 12:00:00'' =
     (Return (Some 1),
      small_db\<lparr>Orders := [\<lparr>order_id = 1, dish_req = [], total_price = - 1,
                 order_time = ''2025-01-01 12:00:00'', status = ''Pending'',
                 order_cus_id = 1\<rparr>]\<rparr>)"
  by (simp add: backend_create_order_cases overflows_def sqlite_int_def no_constraints_def
      small_db_def)

subsection \<open>Generated ids\<close>

text \<open>
  C6 against the source: \<^verbatim>\<open>backend_logic.OrderManager.create_order\<close> reads
  \<^verbatim>\<open>lastrowid\<close> before the commit and returns it after a failed commit, against its own
  comment (\<^verbatim>\<open>Return the ID (or None if it failed)\<close>). On a store that runs the
  \<^verbatim>\<open>INSERT\<close> and then fails to commit it, two calls one after the other both return the
  id 1, and the Order table is empty before and after: the ids are neither increasing
  nor different, and no Pending row is stored for them.
\<close>

theorem backend_create_order_id_without_row:
  "backend_create_order commit_fails small_db ''Bread'' 4 1 ''2025-01-01 12:00:00''
     = (Return (Some 1), small_db) \<and>
   backend_create_order commit_fails
       (snd (backend_create_order commit_fails small_db ''Bread'' 4 1 ''2025-01-01 12:00:00''))
       ''Soup'' 3 1 ''2025-01-01 12:30:00''
     = (Return (Some 1), small_db) \<and>
   Orders small_db = []"
  by (simp add: backend_create_order_cases overflows_def sqlite_int_def commit_fails_def
      small_db_def)

text \<open>
  \<^verbatim>\<open>claude_logic\<close>'s version returns an id only after the commit. As long as the rowids
  stay below the largest 64-bit integer, the ids it returns in a sequence of calls grow.
\<close>

lemma fold_max_ge: "(i::int) \<le> fold max ids i"
  by (induction ids arbitrary: i) (auto intro: order_trans [OF max.cobounded2])

lemma fold_max_upper: "(j::int) \<in> set ids \<Longrightarrow> j \<le> fold max ids i"
proof (induction ids arbitrary: i)
  case Nil
  then show ?case by simp
next
  case (Cons a ids)
  show ?case
  proof (cases "j = a")
    case True
    have "a \<le> max a i" by simp
    also have "\<dots> \<le> fold max ids (max a i)" by (rule fold_max_ge)
    finally show ?thesis using True by simp
  next
    case False
    with Cons show ?thesis by simp
  qed
qed

lemma fold_max_mem: "fold max ids (i::int) \<in> set (i # ids)"
proof (induction ids arbitrary: i)
  case Nil
  then show ?case by simp
next
  case (Cons a ids)
  define m where "m = max a i"
  have m: "m = a \<or> m = i"
    by (auto simp add: m_def max_def)
  have step: "fold max (a # ids) i = fold max ids m"
    by (simp add: m_def)
  have "fold max ids m = m \<or> fold max ids m \<in> set ids"
    using Cons.IH [of m] by simp
  with m show ?case unfolding step by auto
qed

lemma next_rowid_greater:
  assumes "i \<in> set ids" and "\<forall>k\<in>set ids. k < max_rowid"
  shows "i < next_rowid pick ids"
proof (cases ids)
  case Nil
  with assms(1) show ?thesis by simp
next
  case (Cons a rest)
  with assms(1) have "i = a \<or> i \<in> set rest" by simp
  then have le: "i \<le> fold max rest a"
    using fold_max_ge [of a rest] fold_max_upper [of i rest a] by auto
  have "fold max rest a < max_rowid"
    using fold_max_mem [of rest a] assms(2) Cons by blast
  with le Cons show ?thesis by simp
qed

lemma create_order_calls_ids:
  "create_order_calls st db calls = (rs, db') \<Longrightarrow>
   list_all (\<lambda>r. returned_id r \<noteq> None) rs \<Longrightarrow>
   list_all (\<lambda>r. order_id r < max_rowid) (Orders db') \<Longrightarrow>
   \<exists>new. Orders db' = Orders db @ new \<and>
         map order_id new = map (the \<circ> returned_id) rs \<and>
         (\<forall>r\<in>set new. status r = ''Pending'') \<and>
         sorted_wrt (<) (map (the \<circ> returned_id) rs) \<and>
         (\<forall>i\<in>set (map order_id (Orders db)). \<forall>j\<in>set (map (the \<circ> returned_id) rs). i < j)"
proof (induction calls arbitrary: db rs db')
  case Nil
  then show ?case by simp
next
  case (Cons c calls)
  obtain req price cid now where c: "c = (req, price, cid, now)"
    by (cases c) auto
  obtain out db1 where first: "create_order st db req price cid now = (out, db1)"
    by (cases "create_order st db req price cid now") auto
  obtain rs1 db2 where rest: "create_order_calls st db1 calls = (rs1, db2)"
    by (cases "create_order_calls st db1 calls") auto
  have "\<exists>r. out = Return r"
  proof (cases out)
    case (Return r)
    then show ?thesis by simp
  next
    case (Raise e)
    with Cons.prems(1,2) c first show ?thesis by auto
  qed
  then obtain r where out: "out = Return r" by blast
  from Cons.prems(1) c first rest out have rs: "rs = Return r # rs1" and db': "db' = db2"
    by auto
  from Cons.prems(2) rs have ok: "r \<noteq> None"
    and oks: "list_all (\<lambda>r. returned_id r \<noteq> None) rs1"
    by auto
  let ?i = "next_rowid (random_rowid st) (map order_id (Orders db))"
  let ?row = "\<lparr>order_id = ?i, dish_req = req, total_price = price, order_time = now,
               status = ''Pending'', order_cus_id = cid\<rparr>"
  from first out ok have r: "r = Some ?i" and db1: "Orders db1 = Orders db @ [?row]"
    by (auto simp add: create_order_cases split: if_splits)
  from Cons.prems(3) db' have small: "list_all (\<lambda>r. order_id r < max_rowid) (Orders db2)"
    by simp
  from Cons.IH [OF rest oks small] obtain new where
    new: "Orders db2 = Orders db1 @ new" "map order_id new = map (the \<circ> returned_id) rs1"
      "\<forall>r\<in>set new. status r = ''Pending''" "sorted_wrt (<) (map (the \<circ> returned_id) rs1)"
      "\<forall>i\<in>set (map order_id (Orders db1)). \<forall>j\<in>set (map (the \<circ> returned_id) rs1). i < j"
    by blast
  have "\<forall>k\<in>set (map order_id (Orders db)). k < max_rowid"
    using small new(1) db1 by (auto simp add: list_all_iff)
  then have below: "\<forall>i\<in>set (map order_id (Orders db)). i < ?i"
    using next_rowid_greater by blast
  have after: "\<forall>j\<in>set (map (the \<circ> returned_id) rs1). ?i < j"
    using new(5) db1 by simp
  have "Orders db' = Orders db @ (?row # new)"
    using new(1) db1 db' by simp
  moreover have "map order_id (?row # new) = map (the \<circ> returned_id) rs"
    using new(2) rs r by simp
  moreover have "\<forall>r\<in>set (?row # new). status r = ''Pending''"
    using new(3) by simp
  moreover have "sorted_wrt (<) (map (the \<circ> returned_id) rs)"
    using new(4) after rs r by simp
  moreover have
    "\<forall>i\<in>set (map order_id (Orders db)). \<forall>j\<in>set (map (the \<circ> returned_id) rs). i < j"
    using below after new(5) db1 rs r by auto
  ultimately show ?case by blast
qed

lemma create_order_ids_increasing:
  assumes "create_order_calls st db calls = (rs, db')"
    and "list_all (\<lambda>r. returned_id r \<noteq> None) rs"
    and "list_all (\<lambda>r. order_id r < max_rowid) (Orders db')"
  shows "sorted_wrt (<) (map (the \<circ> returned_id) rs) \<and>
         distinct (map (the \<circ> returned_id) rs) \<and>
         take (length (Orders db)) (Orders db') = Orders db \<and>
         map order_id (drop (length (Orders db)) (Orders db')) = map (the \<circ> returned_id) rs \<and>
         list_all (\<lambda>r. status r = ''Pending'') (drop (length (Orders db)) (Orders db'))"
proof -
  from create_order_calls_ids [OF assms] obtain new where
    new: "Orders db' = Orders db @ new" "map order_id new = map (the \<circ> returned_id) rs"
      "\<forall>r\<in>set new. status r = ''Pending''" "sorted_wrt (<) (map (the \<circ> returned_id) rs)"
    by blast
  have "distinct (map (the \<circ> returned_id) rs)"
    using new(4) strict_sorted_iff by blast
  with new show ?thesis by (simp add: list_all_iff)
qed

section \<open>Bills\<close>

lemma create_bill_cases:
  "create_bill st db oid eid sid amount now =
     (if accepted st db (InsertBill oid eid sid amount now)
      then (True, db\<lparr>Bills := Bills db @
             [\<lparr>bill_id = next_rowid (random_rowid st) (map bill_id (Bills db)),
               bill_order_id = oid, bill_emp_id = eid, bill_shipper_id = sid,
               total_amount = amount, bill_time = now\<rparr>]\<rparr>)
      else (False, db))"
  by (simp add: create_bill_def execute_query_commit Let_def)

lemma backend_create_bill_cases:
  "backend_create_bill st db oid eid sid amount now =
     (if \<not> connects st then (Raise (Sqlite3Error OperationalError), db)
      else if overflows (InsertBill oid eid sid amount now) then (Raise OverflowError, db)
      else if accepted st db (InsertBill oid eid sid amount now)
      then (Return PyTrue, db\<lparr>Bills := Bills db @
             [\<lparr>bill_id = next_rowid (random_rowid st) (map bill_id (Bills db)),
               bill_order_id = oid, bill_emp_id = eid, bill_shipper_id = sid,
               total_amount = amount, bill_time = now\<rparr>]\<rparr>)
      else (Return PyNone, db))"
  by (simp add: backend_create_bill_def backend_execute_query_commit Let_def)





section \<open>Order status\<close>

lemma OrderStatus_lookup_iff:
  "OrderStatus_lookup s \<noteq> None \<longleftrightarrow>
     s \<in> {''Pending'', ''Preparing'', ''Ready'', ''Delivered'', ''Cancelled''}"
  by (auto simp add: OrderStatus_lookup_def)

lemma update_status_cases:
  "update_status st db oid t =
     (if t \<in> {''Pending'', ''Preparing'', ''Ready'', ''Delivered'', ''Cancelled''} \<and>
         accepted st db (UpdateOrderStatus t oid)
      then (True, db\<lparr>Orders :=
              map (\<lambda>r. if order_id r = oid then r\<lparr>status := t\<rparr> else r) (Orders db)\<rparr>)
      else (False, db))"
  using OrderStatus_lookup_iff [of t]
  by (auto simp add: update_status_def execute_query_commit split: option.splits)

lemma backend_update_status_cases:
  "backend_update_status st db oid t =
     (if \<not> connects st then (Raise (Sqlite3Error OperationalError), db)
      else if overflows (UpdateOrderStatus t oid) then (Raise OverflowError, db)
      else if accepted st db (UpdateOrderStatus t oid)
      then (Return PyTrue, db\<lparr>Orders :=
              map (\<lambda>r. if order_id r = oid then r\<lparr>status := t\<rparr> else r) (Orders db)\<rparr>)
      else (Return PyNone, db))"
  by (simp add: backend_update_status_def backend_execute_query_commit)

text \<open>
  C3, as the source has it. \<^verbatim>\<open>claude_logic.OrderManager.update_status\<close> never reads the
  current status. When the new status \<open>t\<close> is one of the five status strings and the
  store accepts the \<^verbatim>\<open>UPDATE\<close>, it returns \<^verbatim>\<open>True\<close> and every Order row with the given
  id has status \<open>t\<close>, whatever its status was; when \<open>t\<close> is any other string, or the
  store does not accept the \<^verbatim>\<open>UPDATE\<close>, it returns \<^verbatim>\<open>False\<close> and the store is unchanged.
\<close>

theorem update_status_ignores_current_status:
  "(t \<in> {''Pending'', ''Preparing'', ''Ready'', ''Delivered'', ''Cancelled''} \<and>
    accepted st db (UpdateOrderStatus t oid) \<longrightarrow>
      update_status st db oid t =
        (True, db\<lparr>Orders :=
           map (\<lambda>r. if order_id r = oid then r\<lparr>status := t\<rparr> else r) (Orders db)\<rparr>)) \<and>
   (t \<notin> {''Pending'', ''Preparing'', ''Ready'', ''Delivered'', ''Cancelled''} \<or>
    \<not> accepted st db (UpdateOrderStatus t oid) \<longrightarrow>
      update_status st db oid t = (False, db))"
  by (simp add: update_status_cases)

text \<open>A legal step is stored; a string that is not a status is refused.\<close>

theorem update_status_ignores_current_status_witness:
  "update_status no_constraints small_db_with_order 1 ''Preparing'' =
     (True, small_db_with_order\<lparr>Orders :=
        [\<lparr>order_id = 1, dish_req = ''Bread'', total_price = 4,
          order_time = ''2025-01-01 12:00:00'', status = ''Preparing'', order_cus_id = 1\<rparr>]\<rparr>) \<and>
   update_status no_constraints small_db_with_order 1 ''Eaten'' = (False, small_db_with_order)"
  using update_status_ignores_current_status
      [of "''Preparing''" no_constraints small_db_with_order 1]
    update_status_ignores_current_status
      [of "''Eaten''" no_constraints small_db_with_order 1]
  by (simp add: accepted_def readable_def overflows_def sqlite_int_def no_constraints_def
      small_db_with_order_def small_db_def)

text \<open>
  C3 as stated fails: Pending to Delivered is not in the specification's table, yet
  \<^verbatim>\<open>update_status(1, "Delivered")\<close> on the pending order 1 returns \<^verbatim>\<open>True\<close> and the stored
  status is \<^verbatim>\<open>Delivered\<close>.
\<close>

theorem update_status_counterexample:
  "\<not> spec_legal_transition ''Pending'' ''Delivered'' \<and>
   map status (Orders small_db_with_order) = [''Pending''] \<and>
   fst (update_status no_constraints small_db_with_order 1 ''Delivered'') = True \<and>
   map status (Orders (snd (update_status no_constraints small_db_with_order 1 ''Delivered'')))
     = [''Delivered'']"
  by (simp add: update_status_cases spec_legal_transition_def accepted_def readable_def
      overflows_def sqlite_int_def no_constraints_def small_db_with_order_def small_db_def)

section \<open>Rows once created\<close>

lemma list_all2_map_self: "list_all2 (\<lambda>r r'. r' = f r) xs (map f xs)"
  by (induction xs) auto

lemma add_delivery_cases:
  "add_delivery st db oid sid addr km f now =
     (if accepted st db (InsertDelivery oid sid now addr km f)
      then (True, db\<lparr>Deliveries := Deliveries db @
             [\<lparr>delivery_id = next_rowid (random_rowid st) (map delivery_id (Deliveries db)),
               delivery_order_id = oid, delivery_shipper_id = sid, delivery_time = now,
               delivery_addr = addr, distance = km, fee = f\<rparr>]\<rparr>)
      else (False, db))"
  by (simp add: add_delivery_def execute_query_commit Let_def)

lemma backend_add_delivery_cases:
  "backend_add_delivery st db oid sid addr km f now =
     (if \<not> connects st then (Raise (Sqlite3Error OperationalError), db)
      else if overflows (InsertDelivery oid sid now addr km f) then (Raise OverflowError, db)
      else if accepted st db (InsertDelivery oid sid now addr km f)
      then (Return PyTrue, db\<lparr>Deliveries := Deliveries db @
             [\<lparr>delivery_id = next_rowid (random_rowid st) (map delivery_id (Deliveries db)),
               delivery_order_id = oid, delivery_shipper_id = sid, delivery_time = now,
               delivery_addr = addr, distance = km, fee = f\<rparr>]\<rparr>)
      else (Return PyNone, db))"
  by (simp add: backend_add_delivery_def backend_execute_query_commit Let_def)

lemma only_status_changed_update:
  "only_status_changed oid s db
     (db\<lparr>Orders := map (\<lambda>r. if order_id r = oid then r\<lparr>status := s\<rparr> else r) (Orders db)\<rparr>)"
  by (simp add: only_status_changed_def list_all2_map_self)

text \<open>
  C9. \<^verbatim>\<open>create_order\<close>, \<^verbatim>\<open>deduct_stock_for_order\<close>, \<^verbatim>\<open>create_bill\<close> and \<^verbatim>\<open>add_delivery\<close>,
  in either version, keep every Order, Bill and Delivery row that exists as it is (they
  only add rows after them). A successful \<^verbatim>\<open>update_status(order_id, status)\<close>, in
  either version, changes the status field of the Order rows with that id and nothing
  else: their other fields, the other Order rows and all other tables are as before.
\<close>

theorem workflow_frame:
  "rows_kept db (snd (create_order st db req price cid now)) \<and>
   rows_kept db (snd (deduct_stock_for_order db req)) \<and>
   rows_kept db (snd (create_bill st db oid eid sid amount now)) \<and>
   rows_kept db (snd (add_delivery st db oid sid addr km f now)) \<and>
   (update_status st db oid s = (True, db') \<longrightarrow> only_status_changed oid s db db') \<and>
   (backend_update_status st db oid s = (Return PyTrue, db') \<longrightarrow>
      only_status_changed oid s db db') \<and>
   rows_kept db (snd (backend_create_order st db req price cid now)) \<and>
   rows_kept db (snd (backend_create_bill st db oid eid sid amount now)) \<and>
   rows_kept db (snd (backend_add_delivery st db oid sid addr km f now))"
proof -
  have 1: "rows_kept db (snd (create_order st db req price cid now))"
    by (simp add: create_order_cases rows_kept_def)
  have 2: "rows_kept db (snd (deduct_stock_for_order db req))"
    by (simp add: deduct_stock_for_order_def rows_kept_def)
  have 3: "rows_kept db (snd (create_bill st db oid eid sid amount now))"
    by (simp add: create_bill_cases rows_kept_def)
  have 4: "rows_kept db (snd (add_delivery st db oid sid addr km f now))"
    by (simp add: add_delivery_cases rows_kept_def)
  have 5: "update_status st db oid s = (True, db') \<longrightarrow> only_status_changed oid s db db'"
    using only_status_changed_update [of oid s db]
    by (auto simp add: update_status_cases split: if_splits)
  have 6: "backend_update_status st db oid s = (Return PyTrue, db') \<longrightarrow>
      only_status_changed oid s db db'"
    using only_status_changed_update [of oid s db]
    by (auto simp add: backend_update_status_cases split: if_splits)
  have 7: "rows_kept db (snd (backend_create_order st db req price cid now))"
    by (simp add: backend_create_order_cases rows_kept_def)
  have 8: "rows_kept db (snd (backend_create_bill st db oid eid sid amount now))"
    by (simp add: backend_create_bill_cases rows_kept_def)
  have 9: "rows_kept db (snd (backend_add_delivery st db oid sid addr km f now))"
    by (simp add: backend_add_delivery_cases rows_kept_def)
  from 1 2 3 4 5 6 7 8 9 show ?thesis by blast
qed

text \<open>Order 1 is marked ready: only its status differs afterwards.\<close>

theorem workflow_frame_witness:
  "update_status no_constraints small_db_with_order 1 ''Ready'' =
     (True, small_db_with_order\<lparr>Orders :=
        [\<lparr>order_id = 1, dish_req = ''Bread'', total_price = 4,
          order_time = ''2025-01-01 12:00:00'', status = ''Ready'', order_cus_id = 1\<rparr>]\<rparr>) \<and>
   only_status_changed 1 ''Ready'' small_db_with_order
     (small_db_with_order\<lparr>Orders :=
        [\<lparr>order_id = 1, dish_req = ''Bread'', total_price = 4,
          order_time = ''2025-01-01 12:00:00'', status = ''Ready'', order_cus_id = 1\<rparr>]\<rparr>) \<and>
   rows_kept small_db_with_order
     (snd (create_order no_constraints small_db_with_order ''Soup'' 3 1 ''2025-01-01 13:00:00''))"
proof -
  have u: "update_status no_constraints small_db_with_order 1 ''Ready'' =
     (True, small_db_with_order\<lparr>Orders :=
        [\<lparr>order_id = 1, dish_req = ''Bread'', total_price = 4,
          order_time = ''2025-01-01 12:00:00'', status = ''Ready'', order_cus_id = 1\<rparr>]\<rparr>)"
    by (simp add: update_status_cases accepted_def readable_def overflows_def sqlite_int_def
        no_constraints_def small_db_with_order_def small_db_def)
  from u workflow_frame [where db = small_db_with_order and st = no_constraints
      and req = "''Soup''" and price = 3 and cid = 1 and now = "''2025-01-01 13:00:00''"
      and oid = 1 and s = "''Ready''"]
  show ?thesis by simp
qed

section \<open>Customers\<close>

lemma get_by_phone_found:
  assumes "readable st db (SelectCustomerByPhone phone)"
  shows "py_bool (fst (get_by_phone st db phone)) = (phone \<in> set (map cus_phone (Customers db)))"
    and "snd (get_by_phone st db phone) = db"
proof -
  have "py_bool (fetchone (map customer_columns xs)) = (xs \<noteq> [])" for xs
    by (cases xs) (simp_all add: customer_columns_def)
  then show "py_bool (fst (get_by_phone st db phone))
      = (phone \<in> set (map cus_phone (Customers db)))"
    using assms by (auto simp add: get_by_phone_def execute_query_fetch_one filter_empty_conv)
  show "snd (get_by_phone st db phone) = db"
    using assms by (simp add: get_by_phone_def execute_query_fetch_one)
qed

text \<open>
  C10, as the source has it. \<^verbatim>\<open>claude_logic.CustomerManager.add\<close> returns \<^verbatim>\<open>False\<close> and
  leaves the store as it was when the name is empty, when the phone is empty, or when
  a customer with that phone is in the store and the lookup of the phone runs without
  an error. When the lookup runs, a store in which no two customers share a phone is
  still such a store after the call.
\<close>

theorem CustomerManager_add_rejects:
  "(name = [] \<or> phone = [] \<or>
      (phone \<in> set (map cus_phone (Customers db)) \<and>
       readable st db (SelectCustomerByPhone phone))
    \<longrightarrow> CustomerManager_add st db name phone = (False, db)) \<and>
   (readable st db (SelectCustomerByPhone phone) \<and> distinct (map cus_phone (Customers db))
    \<longrightarrow> distinct (map cus_phone (Customers (snd (CustomerManager_add st db name phone)))))"
proof -
  have a: "name = [] \<or> phone = [] \<Longrightarrow> CustomerManager_add st db name phone = (False, db)"
    by (auto simp add: CustomerManager_add_def)
  have b: "CustomerManager_add st db name phone = (False, db)"
    if "phone \<in> set (map cus_phone (Customers db))"
      "readable st db (SelectCustomerByPhone phone)"
    using get_by_phone_found [of st db phone] that
    by (auto simp add: CustomerManager_add_def split: prod.splits)
  have c: "distinct (map cus_phone (Customers (snd (CustomerManager_add st db name phone))))"
    if ok: "readable st db (SelectCustomerByPhone phone)"
      and d: "distinct (map cus_phone (Customers db))"
  proof (cases "name = [] \<or> phone = [] \<or> phone \<in> set (map cus_phone (Customers db))")
    case True
    with a b ok have "CustomerManager_add st db name phone = (False, db)" by blast
    with d show ?thesis by simp
  next
    case False
    with get_by_phone_found [of st db phone] ok d show ?thesis
      by (auto simp add: CustomerManager_add_def execute_query_commit Let_def
          split: prod.splits)
  qed
  from a b c show ?thesis by blast
qed

text \<open>
  A second customer with the phone of the first is refused, and so is one without a
  name; one with a new phone is added and the phones stay different.
\<close>

theorem CustomerManager_add_rejects_witness:
  "CustomerManager_add no_constraints small_db ''Dung'' ''0901'' = (False, small_db) \<and>
   CustomerManager_add no_constraints small_db [] ''0902'' = (False, small_db) \<and>
   distinct (map cus_phone
     (Customers (snd (CustomerManager_add no_constraints small_db ''Dung'' ''0902''))))"
proof -
  have ok: "readable no_constraints small_db (SelectCustomerByPhone p)" for p
    by (simp add: no_constraints_def)
  have m: "''0901'' \<in> set (map cus_phone (Customers small_db))"
    and d: "distinct (map cus_phone (Customers small_db))"
    by (simp_all add: small_db_def)
  from CustomerManager_add_rejects [of "''Dung''" "''0901''" small_db no_constraints]
    CustomerManager_add_rejects [of "[]" "''0902''" small_db no_constraints]
    CustomerManager_add_rejects [of "''Dung''" "''0902''" small_db no_constraints]
    ok m d
  show ?thesis by simp
qed

text \<open>
  C10 as stated fails: a lookup that fails reads as a phone that is not there. On a
  store where the lookup raises an error and the \<^verbatim>\<open>INSERT\<close> runs, \<^verbatim>\<open>add\<close> with the phone
  of the customer in the store returns \<^verbatim>\<open>True\<close>, and two customers share the phone.
\<close>

theorem CustomerManager_add_counterexample:
  "''0901'' \<in> set (map cus_phone (Customers small_db)) \<and>
   CustomerManager_add lookup_fails small_db ''Dung'' ''0901'' =
     (True, small_db\<lparr>Customers := Customers small_db @
        [\<lparr>cus_id = 2, cus_name = ''Dung'', cus_phone = ''0901''\<rparr>]\<rparr>) \<and>
   map cus_phone (Customers (snd (CustomerManager_add lookup_fails small_db ''Dung'' ''0901'')))
     = [''0901'', ''0901'']"
  by (simp add: CustomerManager_add_def get_by_phone_def execute_query_fetch_one
      execute_query_commit accepted_def readable_def overflows_def lookup_fails_def
      small_db_def max_rowid_def)

section \<open>Order, stock and bill, one after the other\<close>

text \<open>
  C1, as the source has it. There is no \<^verbatim>\<open>place_full_order\<close> and no transaction over
  several statements: \<^verbatim>\<open>create_order\<close>, \<^verbatim>\<open>deduct_stock_for_order\<close> and \<^verbatim>\<open>create_bill\<close> are
  three operations, each on a connection of its own, and each \<^verbatim>\<open>INSERT\<close> is committed
  or rolled back by itself. When the store has accepted the \<^verbatim>\<open>INSERT\<close> of
  \<^verbatim>\<open>create_order\<close> and \<^verbatim>\<open>create_bill\<close> then fails (it returns \<^verbatim>\<open>None\<close> or raises), the
  failed step leaves no Bill row, the stock step has changed nothing, and the Order row
  stays in the store.
\<close>

theorem separate_steps_no_rollback:
  assumes "accepted st db (InsertOrder req price t1 ''Pending'' cid)"
    and "backend_create_order st db req price cid t1 = (r1, db1)"
    and "deduct_stock_for_order db1 req = (r2, db2)"
    and "backend_create_bill st db2 oid eid sid amount t2 = (r3, db3)"
    and "r3 \<noteq> Return PyTrue"
  shows "r1 = Return (Some (next_rowid (random_rowid st) (map order_id (Orders db)))) \<and>
         r2 \<and> db3 = db1 \<and>
         db1 = db\<lparr>Orders := Orders db @
                 [\<lparr>order_id = next_rowid (random_rowid st) (map order_id (Orders db)),
                   dish_req = req, total_price = price, order_time = t1,
                   status = ''Pending'', order_cus_id = cid\<rparr>]\<rparr>"
proof -
  from assms(1,2)
  have r1: "r1 = Return (Some (next_rowid (random_rowid st) (map order_id (Orders db))))"
    and db1: "db1 = db\<lparr>Orders := Orders db @
                 [\<lparr>order_id = next_rowid (random_rowid st) (map order_id (Orders db)),
                   dish_req = req, total_price = price, order_time = t1,
                   status = ''Pending'', order_cus_id = cid\<rparr>]\<rparr>"
    by (auto simp add: backend_create_order_cases accepted_def readable_def split: if_splits)
  from assms(3) have r2: r2 and db2: "db2 = db1"
    by (simp_all add: deduct_stock_for_order_def)
  from assms(4,5) db2 have db3: "db3 = db1"
    by (auto simp add: backend_create_bill_cases split: if_splits)
  from r1 db1 r2 db3 show ?thesis by simp
qed

text \<open>
  The three steps for one bread on a store that enforces the references, with an
  employee id that does not exist: afterwards the store holds order 1 and no bill.
\<close>

theorem separate_steps_no_rollback_witness:
  "fst (backend_create_order foreign_keys small_db ''Bread'' 4 1 ''2025-01-01 12:00:00'')
     = Return (Some 1) \<and>
   fst (backend_create_bill foreign_keys
          (snd (deduct_stock_for_order
             (snd (backend_create_order foreign_keys small_db ''Bread'' 4 1
                     ''2025-01-01 12:00:00'')) ''Bread''))
          1 99 1 4 ''2025-01-01 12:00:05'')
     = Return PyNone \<and>
   map order_id (Orders (snd (backend_create_bill foreign_keys
          (snd (deduct_stock_for_order
             (snd (backend_create_order foreign_keys small_db ''Bread'' 4 1
                     ''2025-01-01 12:00:00'')) ''Bread''))
          1 99 1 4 ''2025-01-01 12:00:05'')))
     = [1] \<and>
   Bills (snd (backend_create_bill foreign_keys
          (snd (deduct_stock_for_order
             (snd (backend_create_order foreign_keys small_db ''Bread'' 4 1
                     ''2025-01-01 12:00:00'')) ''Bread''))
          1 99 1 4 ''2025-01-01 12:00:05''))
     = []"
proof -
  let ?order = "backend_create_order foreign_keys small_db ''Bread'' 4 1 ''2025-01-01 12:00:00''"
  let ?stock = "deduct_stock_for_order (snd ?order) ''Bread''"
  let ?bill = "backend_create_bill foreign_keys (snd ?stock) 1 99 1 4 ''2025-01-01 12:00:05''"
  have acc: "accepted foreign_keys small_db
      (InsertOrder ''Bread'' 4 ''2025-01-01 12:00:00'' ''Pending'' 1)"
    by (simp add: accepted_def readable_def overflows_def sqlite_int_def foreign_keys_def
        small_db_def)
  have 1: "?order = (fst ?order, snd ?order)" by simp
  have 2: "?stock = (fst ?stock, snd ?stock)" by simp
  have 3: "?bill = (fst ?bill, snd ?bill)" by simp
  have failed: "fst ?bill = Return PyNone"
    by (simp add: backend_create_bill_cases backend_create_order_cases
        deduct_stock_for_order_def accepted_def readable_def overflows_def sqlite_int_def
        foreign_keys_def small_db_def)
  then have 4: "fst ?bill \<noteq> Return PyTrue" by simp
  note steps = separate_steps_no_rollback [OF acc 1 2 3 4]
  have none: "Orders small_db = []" "Bills small_db = []"
    by (simp_all add: small_db_def)
  from steps have "fst ?order =
      Return (Some (next_rowid (random_rowid foreign_keys) (map order_id (Orders small_db))))"
    by (rule conjunct1)
  then have first: "fst ?order = Return (Some 1)"
    by (simp add: none)
  from steps have same: "snd ?bill = snd ?order"
    by blast
  from steps have stored: "snd ?order = small_db\<lparr>Orders := Orders small_db @
      [\<lparr>order_id = next_rowid (random_rowid foreign_keys) (map order_id (Orders small_db)),
        dish_req = ''Bread'', total_price = 4, order_time = ''2025-01-01 12:00:00'',
        status = ''Pending'', order_cus_id = 1\<rparr>]\<rparr>"
    by blast
  have "map order_id (Orders (snd ?order)) = [1]"
    by (subst stored) (simp add: none)
  then have orders: "map order_id (Orders (snd ?bill)) = [1]"
    by (subst same)
  have "Bills (snd ?order) = []"
    by (subst stored) (simp add: none)
  then have bills: "Bills (snd ?bill) = []"
    by (subst same)
  from first failed orders bills show ?thesis
    by blast
qed

text \<open>
  C1 as stated fails: on a store that enforces the references, an order for a bread is
  created, the stock step returns \<^verbatim>\<open>True\<close>, and the bill for a missing employee fails;
  afterwards order 1 is in the Order table.
\<close>

theorem separate_steps_counterexample:
  "backend_create_order foreign_keys small_db ''Bread'' 4 1 ''2025-01-01 12:00:00''
     = (Return (Some 1), small_db_with_order) \<and>
   deduct_stock_for_order small_db_with_order ''Bread'' = (True, small_db_with_order) \<and>
   backend_create_bill foreign_keys small_db_with_order 1 99 1 4 ''2025-01-01 12:00:05''
     = (Return PyNone, small_db_with_order) \<and>
   map order_id (Orders small_db_with_order) = [1]"
  by (simp add: backend_create_order_cases backend_create_bill_cases accepted_def readable_def
      overflows_def sqlite_int_def deduct_stock_for_order_def foreign_keys_def
      small_db_with_order_def small_db_def)

end
